theory Spec2Isabelle
  imports Complex_Main
begin

section \<open>The ground-truth policy (policy\_model.py)\<close>

text \<open>
  Audiences, visibilities, actions and decisions are Python strings in the source, and
  nothing restricts them to the values the docstrings list. They are kept as strings
  here, so that values outside the declared enumerations are inputs of the model too.
  The three context flags are tested for truth only; they are modelled as booleans.
\<close>

subsection \<open>AuthorizationPolicy.evaluate\<close>

text \<open>
  The method reads nothing of \<open>self\<close>, performs no I/O and contains no operation that can
  raise on strings and booleans, so it is a plain function. The branches are kept in the
  order and with the redundancy of the source (rules 5 and 6 return the same value as the
  final default).
\<close>

definition evaluate :: "string \<Rightarrow> string \<Rightarrow> string \<Rightarrow> bool \<Rightarrow> bool \<Rightarrow> bool \<Rightarrow> string" where
  "evaluate audience visibility action is_owner has_collaboration_permission same_org =
     (if is_owner \<or> audience = ''owner'' then ''ALLOW''
      else if visibility = ''public'' then
        (if action = ''read'' then ''ALLOW'' else ''DENY'')
      else if visibility = ''org_public'' then
        (if same_org \<and> action = ''read'' then ''ALLOW'' else ''DENY'')
      else if has_collaboration_permission then
        (if action \<in> set [''read'', ''edit''] then ''ALLOW'' else ''DENY'')
      else if visibility = ''shared'' then ''DENY''
      else if visibility = ''private'' then ''DENY''
      else ''DENY'')"

subsection \<open>The five-rule chain as the specification words it\<close>

text \<open>
  This second definition follows the text of the specification, not the source: a
  first-match chain over the three derived booleans, the resource class and the action.
  It is what \<open>evaluate\<close> is compared with.
\<close>

definition priority_chain :: "bool \<Rightarrow> bool \<Rightarrow> bool \<Rightarrow> string \<Rightarrow> string \<Rightarrow> string" where
  "priority_chain owner_flag collab_flag org_flag resource_class act =
     (if owner_flag then ''ALLOW''
      else if resource_class = ''public'' then
        (if act = ''read'' then ''ALLOW'' else ''DENY'')
      else if resource_class = ''org_public'' then
        (if org_flag \<and> act = ''read'' then ''ALLOW'' else ''DENY'')
      else if collab_flag then
        (if act = ''read'' \<or> act = ''edit'' then ''ALLOW'' else ''DENY'')
      else ''DENY'')"

subsection \<open>The policy object and its rule descriptions\<close>

record rule =
  rule_id :: int
  description :: string
  condition :: string
  result :: string
  priority :: string

record policy =
  rules :: "rule list"

definition define_rules :: "rule list" where
  "define_rules =
     [\<lparr>rule_id = 1, description = ''Owner has full access to their files'',
        condition = ''audience == 'owner'' @ [CHR 0x27], result = ''ALLOW all actions'',
        priority = ''HIGHEST''\<rparr>,
      \<lparr>rule_id = 2, description = ''Public files are read-only for everyone'',
        condition = ''visibility == 'public' AND action == 'read'' @ [CHR 0x27], result = ''ALLOW'',
        priority = ''HIGH''\<rparr>,
      \<lparr>rule_id = 3, description = ''Org-public files are read-only for org members'',
        condition = ''visibility == 'org_public' AND same_org AND action == 'read'' @ [CHR 0x27],
        result = ''ALLOW'', priority = ''HIGH''\<rparr>,
      \<lparr>rule_id = 4, description = ''Collaborators can read and edit'',
        condition = ''has_collaboration_permission AND action IN ['read', 'edit']'',
        result = ''ALLOW'', priority = ''MEDIUM''\<rparr>,
      \<lparr>rule_id = 5, description = ''Collaborators cannot delete or share'',
        condition = ''has_collaboration_permission AND action IN ['delete', 'share']'',
        result = ''DENY'', priority = ''MEDIUM''\<rparr>,
      \<lparr>rule_id = 6, description = ''Private/shared files deny all other access'',
        condition = ''visibility IN ['private', 'shared'] AND no explicit permission'',
        result = ''DENY'', priority = ''LOW''\<rparr>,
      \<lparr>rule_id = 7, description = ''Default deny all'',
        condition = ''default'', result = ''DENY'', priority = ''LOWEST''\<rparr>]"

definition init_policy :: policy where
  "init_policy = \<lparr>rules = define_rules\<rparr>"

subsection \<open>AuthorizationPolicy.generate\_all\_scenarios\<close>

record scenario =
  scenario_id :: int
  audience :: string
  visibility :: string
  action :: string
  is_owner :: bool
  has_collaboration :: bool
  same_org :: bool
  expected_result :: string

definition audiences :: "string list" where
  "audiences = [''owner'', ''collaborator'', ''org_member'', ''external'']"

definition visibilities :: "string list" where
  "visibilities = [''private'', ''shared'', ''org_public'', ''public'']"

definition actions :: "string list" where
  "actions = [''read'', ''edit'', ''delete'', ''share'']"

text \<open>
  The three nested \<open>for\<close> statements thread two local variables, the list \<open>scenarios\<close> and the
  counter \<open>scenario_id\<close>. Each of them is a recursion over the list it iterates, with that
  pair as its state; the innermost body appends one dictionary and increments the counter.
\<close>

fun for_action :: "string \<Rightarrow> string \<Rightarrow> string list \<Rightarrow> scenario list \<times> int \<Rightarrow> scenario list \<times> int" where
  "for_action aud vis [] st = st"
| "for_action aud vis (act # rest) (scenarios, sid) =
     (let owner_flag = (aud = ''owner'');
          has_collab = (aud = ''collaborator'');
          org_flag = (aud \<in> set [''owner'', ''org_member'']);
          expected = evaluate aud vis act owner_flag has_collab org_flag
      in for_action aud vis rest
           (scenarios @ [\<lparr>scenario_id = sid, audience = aud, visibility = vis, action = act,
                           is_owner = owner_flag, has_collaboration = has_collab,
                           same_org = org_flag, expected_result = expected\<rparr>],
            sid + 1))"

fun for_visibility :: "string \<Rightarrow> string list \<Rightarrow> scenario list \<times> int \<Rightarrow> scenario list \<times> int" where
  "for_visibility aud [] st = st"
| "for_visibility aud (vis # rest) st = for_visibility aud rest (for_action aud vis actions st)"

fun for_audience :: "string list \<Rightarrow> scenario list \<times> int \<Rightarrow> scenario list \<times> int" where
  "for_audience [] st = st"
| "for_audience (aud # rest) st = for_audience rest (for_visibility aud visibilities st)"

definition generate_all_scenarios :: "policy \<Rightarrow> scenario list" where
  "generate_all_scenarios self = fst (for_audience audiences ([], 1))"

text \<open>The (role, resourceClass, action) triple a scenario stands for.\<close>

definition triple :: "scenario \<Rightarrow> string \<times> string \<times> string" where
  "triple s = (audience s, visibility s, action s)"

section \<open>The HTTP client (api\_client.py)\<close>

text \<open>
  The subject under test is reached over HTTP. One exchange either raises in the
  \<open>requests\<close> library (connection refused, timeout), which no code of the client or of the
  framework catches, or it returns a reply with a status code and a body. The body is kept
  as the parsed JSON value when it parses and as its text otherwise. JSON numbers are
  integers here; no reply of the modelled server carries a fraction. Replies carry no
  headers: a reply is a final one, neither a redirection nor one asking to be retried
  after a delay. An exchange that raises is one the session has given up on: what its
  adapter does about refused connections and timed-out reads happens inside that exchange,
  and the subject's state after it is whatever those attempts left.
\<close>

datatype json =
    JNull
  | JBool bool
  | JInt int
  | JStr string
  | JList "json list"
  | JDict "(string \<times> json) list"

datatype payload = Json json | Text string

record http_reply =
  status :: int
  content :: payload

datatype exn = RequestException | RetryError | AttributeError | KeyError

text \<open>
  The requests the oracle can send, one constructor per client method it calls, plus the
  destructive \<open>delete_file\<close> the client also offers. A subject is a state transformer
  answering them; the state is the subject's own.
\<close>

datatype request =
    GetFile string string
  | UpdateFile string string string
  | DeleteFile string string
  | ShareFile string string string string
  | Authorize string string string

type_synonym 's subject = "request \<Rightarrow> 's \<Rightarrow> (exn + http_reply) \<times> 's"

text \<open>
  The constructor mounts \<open>Retry(total=3, status_forcelist=(500, 502, 504))\<close> on the session.
  A request whose method the policy retries (GET, PUT and DELETE of the ones sent here, not
  POST) and whose reply has one of these statuses is sent again, up to three more times;
  when the fourth reply is still one of them the session raises RetryError. Every attempt
  reaches the subject and may change its state. \<open>session_send n\<close> is one call on the session
  with \<open>n\<close> retries left.
\<close>

definition status_forcelist :: "int list" where
  "status_forcelist = [500, 502, 504]"

fun method_retried :: "request \<Rightarrow> bool" where
  "method_retried (GetFile file_id user_id) = True"
| "method_retried (UpdateFile file_id user_id new_content) = True"
| "method_retried (DeleteFile file_id user_id) = True"
| "method_retried (ShareFile file_id user_id target_user_id permission_type) = False"
| "method_retried (Authorize file_id user_id act) = False"

fun session_send :: "nat \<Rightarrow> 's subject \<Rightarrow> request \<Rightarrow> 's \<Rightarrow> (exn + http_reply) \<times> 's" where
  "session_send 0 api req st =
     (case api req st of
        (Inl e, st') \<Rightarrow> (Inl e, st')
      | (Inr r, st') \<Rightarrow>
          if method_retried req \<and> status r \<in> set status_forcelist then (Inl RetryError, st')
          else (Inr r, st'))"
| "session_send (Suc n) api req st =
     (case api req st of
        (Inl e, st') \<Rightarrow> (Inl e, st')
      | (Inr r, st') \<Rightarrow>
          if method_retried req \<and> status r \<in> set status_forcelist then session_send n api req st'
          else (Inr r, st'))"

text \<open>Python truthiness \<open>bool(x)\<close> of a parsed JSON value, and \<open>dict.get(key, default)\<close>.\<close>

fun truthy :: "json \<Rightarrow> bool" where
  "truthy JNull = False"
| "truthy (JBool b) = b"
| "truthy (JInt n) = (n \<noteq> 0)"
| "truthy (JStr s) = (s \<noteq> [])"
| "truthy (JList xs) = (xs \<noteq> [])"
| "truthy (JDict d) = (d \<noteq> [])"

definition dict_get :: "(string \<times> json) list \<Rightarrow> string \<Rightarrow> json \<Rightarrow> json" where
  "dict_get d k dflt = (case map_of d k of Some v \<Rightarrow> v | None \<Rightarrow> dflt)"

record response =
  status_code :: int
  data :: json
  message :: json
  raw :: json

text \<open>
  \<open>_wrap_response\<close> guards only \<open>resp.json()\<close>; a body that parses to something other than
  an object makes \<open>body.get\<close> raise AttributeError outside the \<open>try\<close>.
\<close>

definition wrap_response :: "http_reply \<Rightarrow> exn + response" where
  "wrap_response resp =
     (let body = (case content resp of Json j \<Rightarrow> j | Text t \<Rightarrow> JDict [(''message'', JStr t)])
      in case body of
           JDict d \<Rightarrow> Inr \<lparr>status_code = status resp, data = dict_get d ''data'' (JDict []),
                            message = dict_get d ''message'' (JStr []), raw = body\<rparr>
         | _ \<Rightarrow> Inl AttributeError)"

text \<open>
  Every client method but \<open>check_authorization\<close> has the same shape: one call on the session,
  then \<open>_wrap_response\<close> on what it returns. \<open>send_wrapped\<close> is that shape; the methods below
  differ in the request only.
\<close>

definition send_wrapped :: "'s subject \<Rightarrow> request \<Rightarrow> 's \<Rightarrow> (exn + response) \<times> 's" where
  "send_wrapped api req st =
     (case session_send 3 api req st of
        (Inl e, st') \<Rightarrow> (Inl e, st')
      | (Inr r, st') \<Rightarrow> (wrap_response r, st'))"

definition ApiClient_get_file :: "'s subject \<Rightarrow> string \<Rightarrow> string \<Rightarrow> 's \<Rightarrow> (exn + response) \<times> 's" where
  "ApiClient_get_file api file_id user_id = send_wrapped api (GetFile file_id user_id)"

definition ApiClient_update_file ::
  "'s subject \<Rightarrow> string \<Rightarrow> string \<Rightarrow> string \<Rightarrow> 's \<Rightarrow> (exn + response) \<times> 's" where
  "ApiClient_update_file api file_id user_id new_content =
     send_wrapped api (UpdateFile file_id user_id new_content)"

definition ApiClient_delete_file :: "'s subject \<Rightarrow> string \<Rightarrow> string \<Rightarrow> 's \<Rightarrow> (exn + response) \<times> 's" where
  "ApiClient_delete_file api file_id user_id = send_wrapped api (DeleteFile file_id user_id)"

definition ApiClient_share_file ::
  "'s subject \<Rightarrow> string \<Rightarrow> string \<Rightarrow> string \<Rightarrow> string \<Rightarrow> 's \<Rightarrow> (exn + response) \<times> 's" where
  "ApiClient_share_file api file_id user_id target_user_id permission_type =
     send_wrapped api (ShareFile file_id user_id target_user_id permission_type)"

text \<open>
  \<open>check_authorization\<close> returns a bare boolean. The \<open>try\<close> covers the parsing of the body
  and the lookup of \<open>allowed\<close>, so a body that is not JSON, a JSON value that is not an
  object and an object without the key all give False; the status code is never read.
  The POST itself is outside the \<open>try\<close>.
\<close>

definition ApiClient_check_authorization ::
  "'s subject \<Rightarrow> string \<Rightarrow> string \<Rightarrow> string \<Rightarrow> 's \<Rightarrow> (exn + bool) \<times> 's" where
  "ApiClient_check_authorization api file_id user_id act st =
     (case session_send 3 api (Authorize file_id user_id act) st of
        (Inl e, st') \<Rightarrow> (Inl e, st')
      | (Inr r, st') \<Rightarrow>
          (Inr (case content r of
                  Json (JDict d) \<Rightarrow> truthy (dict_get d ''allowed'' (JBool False))
                | _ \<Rightarrow> False), st'))"

section \<open>The differential oracle (test\_framework.py)\<close>

record test_result =
  result_scenario_id :: int
  result_scenario :: scenario
  expected :: string
  actual :: string
  passed :: bool

text \<open>
  The framework object: the role and visibility bindings filled by the fixture set-up and
  the list of results. Its \<open>api\<close> attribute is the subject, passed explicitly below, and its
  \<open>policy\<close> attribute is used by \<open>run_all_tests\<close> only, which feeds the generated scenarios
  to \<open>test_scenario\<close> one by one and appends each result to \<open>test_results\<close>. The \<open>timestamp\<close>
  of a result is the wall clock and is left out. The attributes \<open>scenario_id\<close> and \<open>scenario\<close>
  of a result are the fields \<open>result_scenario_id\<close> and \<open>result_scenario\<close>, the shorter names
  being taken by the scenario itself.
\<close>

record framework =
  users :: "string \<rightharpoonup> string"
  files :: "string \<rightharpoonup> string"
  test_results :: "test_result list"

text \<open>
  The tail of \<open>execute_api_action\<close>: a wrapped response is an object without \<open>__bool__\<close>, so
  \<open>if response\<close> holds whenever a response was assigned, and the status code decides.
\<close>

definition decide :: "(exn + response) \<times> 's \<Rightarrow> (exn + string) \<times> 's" where
  "decide out =
     (case out of
        (Inl e, st') \<Rightarrow> (Inl e, st')
      | (Inr resp, st') \<Rightarrow>
          (Inr (if status_code resp = 200 \<or> status_code resp = 201 then ''ALLOW''
                else if status_code resp = 403 then ''DENY''
                else ''ERROR''), st'))"

definition execute_api_action ::
  "framework \<Rightarrow> 's subject \<Rightarrow> string \<Rightarrow> string \<Rightarrow> string \<Rightarrow> 's \<Rightarrow> (exn + string) \<times> 's" where
  "execute_api_action self api file_id user_id act st =
     (if act = ''read'' then decide (ApiClient_get_file api file_id user_id st)
      else if act = ''edit'' then
        decide (ApiClient_update_file api file_id user_id ''Updated content'' st)
      else if act = ''delete'' then
        (case ApiClient_check_authorization api file_id user_id ''delete'' st of
           (Inl e, st') \<Rightarrow> (Inl e, st')
         | (Inr authorized, st') \<Rightarrow> (Inr (if authorized then ''ALLOW'' else ''DENY''), st'))
      else if act = ''share'' then
        (case users self ''external'' of
           None \<Rightarrow> (Inl KeyError, st)
         | Some target_id \<Rightarrow> decide (ApiClient_share_file api file_id user_id target_id ''read'' st))
      else (Inr ''ERROR'', st))"

definition test_scenario ::
  "framework \<Rightarrow> 's subject \<Rightarrow> scenario \<Rightarrow> 's \<Rightarrow> (exn + test_result) \<times> 's" where
  "test_scenario self api sc st =
     (case users self (audience sc) of
        None \<Rightarrow> (Inl KeyError, st)
      | Some user_id \<Rightarrow>
          (case files self (visibility sc) of
             None \<Rightarrow> (Inl KeyError, st)
           | Some file_id \<Rightarrow>
               (case execute_api_action self api file_id user_id (action sc) st of
                  (Inl e, st') \<Rightarrow> (Inl e, st')
                | (Inr observed, st') \<Rightarrow>
                    (Inr \<lparr>result_scenario_id = scenario_id sc, result_scenario = sc,
                          expected = expected_result sc, actual = observed,
                          passed = (expected_result sc = observed)\<rparr>, st'))))"

subsection \<open>analyze\_results\<close>

text \<open>
  The two failure-grouping dictionaries keep insertion order, so they are association
  lists with one entry per key. \<open>pass_rate\<close> is a float in the source; it is the exact
  quotient here. The key \<open>passed\<close> of the returned dictionary is the field \<open>passed_count\<close>.
\<close>

type_synonym groups = "(string \<times> test_result list) list"

record analysis =
  total :: int
  passed_count :: int
  failed :: int
  pass_rate :: rat
  over_permissive :: "test_result list"
  over_restrictive :: "test_result list"
  failures_by_audience :: groups
  failures_by_action :: groups

fun categorize ::
  "test_result list \<Rightarrow> test_result list \<times> test_result list \<Rightarrow> test_result list \<times> test_result list" where
  "categorize [] acc = acc"
| "categorize (r # rs) (permissive, restrictive) =
     (if \<not> passed r then
        (if expected r = ''DENY'' \<and> actual r = ''ALLOW'' then
           categorize rs (permissive @ [r], restrictive)
         else if expected r = ''ALLOW'' \<and> actual r = ''DENY'' then
           categorize rs (permissive, restrictive @ [r])
         else categorize rs (permissive, restrictive))
      else categorize rs (permissive, restrictive))"

definition group_add :: "string \<Rightarrow> test_result \<Rightarrow> groups \<Rightarrow> groups" where
  "group_add k r g =
     (let g' = (if map_of g k = None then g @ [(k, [])] else g)
      in map (\<lambda>(k', rs). if k' = k then (k', rs @ [r]) else (k', rs)) g')"

fun group_failures :: "(scenario \<Rightarrow> string) \<Rightarrow> test_result list \<Rightarrow> groups \<Rightarrow> groups" where
  "group_failures key [] g = g"
| "group_failures key (r # rs) g =
     (if \<not> passed r then group_failures key rs (group_add (key (result_scenario r)) r g)
      else group_failures key rs g)"

definition analyze_results :: "framework \<Rightarrow> analysis" where
  "analyze_results self =
     (let n = int (length (test_results self));
          p = int (length (filter passed (test_results self)));
          buckets = categorize (test_results self) ([], [])
      in \<lparr>total = n, passed_count = p, failed = n - p,
           pass_rate = (if n > 0 then of_int p / of_int n * 100 else 0),
           over_permissive = fst buckets, over_restrictive = snd buckets,
           failures_by_audience = group_failures audience (test_results self) [],
           failures_by_action = group_failures action (test_results self) []\<rparr>)"

section \<open>The subject shipped with the repository\<close>

subsection \<open>The in-memory store (file\_sharing\_api.py)\<close>

text \<open>
  The store holds four dictionaries. Creation and modification times are wall-clock
  readings; they are left out of the records and of the reply bodies, and nothing in the
  authorization logic reads them. Attribute names that several classes share carry the
  class as a prefix (\<open>file_owner_id\<close>, \<open>user_organization_id\<close>), and the store's \<open>users\<close> and
  \<open>files\<close> are \<open>api_users\<close> and \<open>api_files\<close>.
\<close>

record user =
  user_user_id :: string
  user_email :: string
  user_organization_id :: string
  user_name :: string

record stored_file =
  file_file_id :: string
  file_owner_id :: string
  file_name :: string
  file_visibility :: string
  file_content :: string

record permission =
  perm_file_id :: string
  perm_user_id :: string
  perm_permission_type :: string

record api_state =
  api_users :: "string \<rightharpoonup> user"
  api_files :: "string \<rightharpoonup> stored_file"
  permissions :: "string \<times> string \<rightharpoonup> permission"
  organizations :: "string \<rightharpoonup> string list"

record api_response =
  resp_status_code :: int
  resp_message :: string
  resp_data :: "(string \<times> json) list"

definition APIResponse :: "int \<Rightarrow> string \<Rightarrow> api_response" where
  "APIResponse code msg = \<lparr>resp_status_code = code, resp_message = msg, resp_data = []\<rparr>"

text \<open>
  \<open>_check_authorization\<close> only reads the store, so it takes the state and returns a value.
  The one operation in it that can raise is the lookup of the file's owner in the
  org-public branch.
\<close>

definition check_authorization :: "api_state \<Rightarrow> string \<Rightarrow> string \<Rightarrow> string \<Rightarrow> exn + bool" where
  "check_authorization self file_id user_id act =
     (case api_files self file_id of
        None \<Rightarrow> Inr False
      | Some f \<Rightarrow>
          (case api_users self user_id of
             None \<Rightarrow> Inr False
           | Some u \<Rightarrow>
               if file_owner_id f = user_id then Inr True
               else if file_visibility f = ''public'' then
                 (if act = ''read'' then Inr True
                  else if act = ''edit'' then Inr True
                  else Inr False)
               else if file_visibility f = ''org_public'' then
                 (case api_users self (file_owner_id f) of
                    None \<Rightarrow> Inl KeyError
                  | Some owner \<Rightarrow>
                      (let org_match = (user_organization_id u = user_organization_id owner)
                       in if org_match \<and> act = ''read'' then Inr True
                          else if org_match \<and> act = ''delete'' then Inr True
                          else Inr False))
               else
                 (case permissions self (file_id, user_id) of
                    None \<Rightarrow> Inr False
                  | Some perm \<Rightarrow>
                      if act = ''read'' then Inr True
                      else if act = ''edit'' then
                        Inr (perm_permission_type perm = ''edit'' \<or> perm_permission_type perm = ''read'')
                      else if act = ''share'' then Inr True
                      else if act = ''delete'' then Inr False
                      else Inr False)))"

definition FileShareAPI_get_file :: "api_state \<Rightarrow> string \<Rightarrow> string \<Rightarrow> exn + api_response" where
  "FileShareAPI_get_file self file_id user_id =
     (case api_files self file_id of
        None \<Rightarrow> Inr (APIResponse 404 ''File not found'')
      | Some f \<Rightarrow>
          (case check_authorization self file_id user_id ''read'' of
             Inl e \<Rightarrow> Inl e
           | Inr ok \<Rightarrow>
               if \<not> ok then Inr (APIResponse 403 ''Access denied'')
               else Inr \<lparr>resp_status_code = 200, resp_message = ''File retrieved successfully'',
                         resp_data = [(''file_id'', JStr (file_file_id f)), (''name'', JStr (file_name f)),
                                      (''owner_id'', JStr (file_owner_id f)),
                                      (''visibility'', JStr (file_visibility f)),
                                      (''content'', JStr (file_content f))]\<rparr>))"

definition FileShareAPI_update_file ::
  "api_state \<Rightarrow> string \<Rightarrow> string \<Rightarrow> string \<Rightarrow> (exn + api_response) \<times> api_state" where
  "FileShareAPI_update_file self file_id user_id new_content =
     (case api_files self file_id of
        None \<Rightarrow> (Inr (APIResponse 404 ''File not found''), self)
      | Some f \<Rightarrow>
          (case check_authorization self file_id user_id ''edit'' of
             Inl e \<Rightarrow> (Inl e, self)
           | Inr ok \<Rightarrow>
               if \<not> ok then (Inr (APIResponse 403 ''Access denied''), self)
               else (Inr \<lparr>resp_status_code = 200, resp_message = ''File updated successfully'',
                          resp_data = [(''file_id'', JStr file_id)]\<rparr>,
                     self\<lparr>api_files := (api_files self)(file_id \<mapsto> f\<lparr>file_content := new_content\<rparr>)\<rparr>)))"

definition FileShareAPI_delete_file ::
  "api_state \<Rightarrow> string \<Rightarrow> string \<Rightarrow> (exn + api_response) \<times> api_state" where
  "FileShareAPI_delete_file self file_id user_id =
     (case api_files self file_id of
        None \<Rightarrow> (Inr (APIResponse 404 ''File not found''), self)
      | Some f \<Rightarrow>
          (case check_authorization self file_id user_id ''delete'' of
             Inl e \<Rightarrow> (Inl e, self)
           | Inr ok \<Rightarrow>
               if \<not> ok then (Inr (APIResponse 403 ''Access denied''), self)
               else (Inr \<lparr>resp_status_code = 200, resp_message = ''File deleted successfully'',
                          resp_data = [(''file_id'', JStr file_id)]\<rparr>,
                     self\<lparr>api_files := (api_files self)(file_id := None),
                          permissions := (\<lambda>k. if fst k = file_id then None else permissions self k)\<rparr>)))"

definition FileShareAPI_share_file ::
  "api_state \<Rightarrow> string \<Rightarrow> string \<Rightarrow> string \<Rightarrow> string \<Rightarrow> (exn + api_response) \<times> api_state" where
  "FileShareAPI_share_file self file_id user_id target_user_id permission_type =
     (if api_files self file_id = None then (Inr (APIResponse 404 ''File not found''), self)
      else if api_users self target_user_id = None then
        (Inr (APIResponse 404 ''Target user not found''), self)
      else
        (case check_authorization self file_id user_id ''share'' of
           Inl e \<Rightarrow> (Inl e, self)
         | Inr ok \<Rightarrow>
             if \<not> ok then (Inr (APIResponse 403 ''Access denied - cannot share this file''), self)
             else (Inr \<lparr>resp_status_code = 200, resp_message = ''File shared successfully'',
                        resp_data = [(''file_id'', JStr file_id), (''shared_with'', JStr target_user_id),
                                     (''permission'', JStr permission_type)]\<rparr>,
                   self\<lparr>permissions := (permissions self)((file_id, target_user_id) \<mapsto>
                          \<lparr>perm_file_id = file_id, perm_user_id = target_user_id,
                           perm_permission_type = permission_type\<rparr>)\<rparr>)))"

subsection \<open>The Flask routes (server.py)\<close>

text \<open>
  Each route checks its required fields for falsiness, calls the store and serialises the
  store's response with its status code. An exception escaping a view is answered by Flask
  with status 500 and an error page that is not JSON. Identifiers are taken to be plain
  tokens, as the UUIDs the store issues are; the quoting of other characters in a URL is
  not modelled. With an empty file identifier the path names no single file and none of
  the four per-file views is entered: the reply is an error page that is not JSON, with
  status 404 for the read, the update and the delete, and with status 405 for the share,
  whose path then falls on the per-file rule, which takes no POST. \<open>server\<close> is the
  application's own answer to one request.
\<close>

definition to_dict :: "api_response \<Rightarrow> json" where
  "to_dict r = JDict [(''status_code'', JInt (resp_status_code r)),
                      (''message'', JStr (resp_message r)),
                      (''data'', JDict (resp_data r))]"

definition jsonify_response :: "api_response \<Rightarrow> http_reply" where
  "jsonify_response r = \<lparr>status = resp_status_code r, content = Json (to_dict r)\<rparr>"

definition bad_request :: "string \<Rightarrow> http_reply" where
  "bad_request msg =
     \<lparr>status = 400, content = Json (JDict [(''status_code'', JInt 400), (''message'', JStr msg)])\<rparr>"

definition internal_error :: http_reply where
  "internal_error = \<lparr>status = 500, content = Text ''Internal Server Error''\<rparr>"

definition not_found_page :: http_reply where
  "not_found_page = \<lparr>status = 404, content = Text ''Not Found''\<rparr>"

definition method_not_allowed_page :: http_reply where
  "method_not_allowed_page = \<lparr>status = 405, content = Text ''Method Not Allowed''\<rparr>"

definition view_reply :: "exn + api_response \<Rightarrow> http_reply" where
  "view_reply out = (case out of Inl e \<Rightarrow> internal_error | Inr r \<Rightarrow> jsonify_response r)"

definition route_get_file :: "string \<Rightarrow> string \<Rightarrow> api_state \<Rightarrow> http_reply \<times> api_state" where
  "route_get_file file_id user_id api =
     (if user_id = [] then (bad_request ''Missing query param: user_id'', api)
      else (view_reply (FileShareAPI_get_file api file_id user_id), api))"

definition route_update_file ::
  "string \<Rightarrow> string \<Rightarrow> string \<Rightarrow> api_state \<Rightarrow> http_reply \<times> api_state" where
  "route_update_file file_id user_id new_content api =
     (if user_id = [] then (bad_request ''Missing required fields: user_id, content'', api)
      else (case FileShareAPI_update_file api file_id user_id new_content of
              (out, api') \<Rightarrow> (view_reply out, api')))"

definition route_delete_file :: "string \<Rightarrow> string \<Rightarrow> api_state \<Rightarrow> http_reply \<times> api_state" where
  "route_delete_file file_id user_id api =
     (if user_id = [] then (bad_request ''Missing query param: user_id'', api)
      else (case FileShareAPI_delete_file api file_id user_id of
              (out, api') \<Rightarrow> (view_reply out, api')))"

definition route_share_file ::
  "string \<Rightarrow> string \<Rightarrow> string \<Rightarrow> string \<Rightarrow> api_state \<Rightarrow> http_reply \<times> api_state" where
  "route_share_file file_id user_id target_user_id permission_type api =
     (if user_id = [] \<or> target_user_id = [] then
        (bad_request ''Missing required fields: user_id, target_user_id'', api)
      else (case FileShareAPI_share_file api file_id user_id target_user_id permission_type of
              (out, api') \<Rightarrow> (view_reply out, api')))"

definition authorize_check :: "string \<Rightarrow> string \<Rightarrow> string \<Rightarrow> api_state \<Rightarrow> http_reply \<times> api_state" where
  "authorize_check file_id user_id act api =
     (if file_id = [] \<or> user_id = [] \<or> act = [] then
        (bad_request ''Missing required fields: file_id, user_id, action'', api)
      else (case check_authorization api file_id user_id act of
              Inl e \<Rightarrow> (internal_error, api)
            | Inr allowed \<Rightarrow>
                (\<lparr>status = 200, content = Json (JDict [(''allowed'', JBool allowed)])\<rparr>, api)))"

definition server :: "api_state subject" where
  "server req api =
     (case (case req of
              GetFile file_id user_id \<Rightarrow>
                if file_id = [] then (not_found_page, api) else route_get_file file_id user_id api
            | UpdateFile file_id user_id new_content \<Rightarrow>
                if file_id = [] then (not_found_page, api)
                else route_update_file file_id user_id new_content api
            | DeleteFile file_id user_id \<Rightarrow>
                if file_id = [] then (not_found_page, api) else route_delete_file file_id user_id api
            | ShareFile file_id user_id target_user_id permission_type \<Rightarrow>
                if file_id = [] then (method_not_allowed_page, api)
                else route_share_file file_id user_id target_user_id permission_type api
            | Authorize file_id user_id act \<Rightarrow> authorize_check file_id user_id act api)
      of (reply, api') \<Rightarrow> (Inr reply, api'))"

section \<open>Observing the oracle\<close>

text \<open>
  To state which requests the oracle sends, a subject is wrapped so that its state also
  carries the log of the requests it has received, in order.
\<close>

definition recording :: "'s subject \<Rightarrow> ('s \<times> request list) subject" where
  "recording api req st =
     (case api req (fst st) of (out, s') \<Rightarrow> (out, (s', snd st @ [req])))"

text \<open>A subject that answers every request with the same reply and has no state.\<close>

definition constant_subject :: "http_reply \<Rightarrow> unit subject" where
  "constant_subject reply req st = (Inr reply, st)"

text \<open>A subject that cannot be reached: every exchange raises.\<close>

definition unreachable_subject :: "unit subject" where
  "unreachable_subject req st = (Inl RequestException, st)"

section \<open>Vocabulary for the statements\<close>

text \<open>
  A generated scenario is consistent when its three flags are the ones derived from its
  audience and its expected decision is the evaluator's on its own fields.
\<close>

definition consistent :: "scenario \<Rightarrow> bool" where
  "consistent s \<longleftrightarrow>
     is_owner s = (audience s = ''owner'') \<and>
     has_collaboration s = (audience s = ''collaborator'') \<and>
     same_org s = (audience s = ''owner'' \<or> audience s = ''org_member'') \<and>
     expected_result s =
       evaluate (audience s) (visibility s) (action s) (is_owner s) (has_collaboration s) (same_org s)"

text \<open>The dictionary the innermost loop body appends for a given counter value and triple.\<close>

definition scenario_of :: "int \<Rightarrow> string \<Rightarrow> string \<Rightarrow> string \<Rightarrow> scenario" where
  "scenario_of sid aud vis act =
     \<lparr>scenario_id = sid, audience = aud, visibility = vis, action = act,
      is_owner = (aud = ''owner''), has_collaboration = (aud = ''collaborator''),
      same_org = (aud \<in> set [''owner'', ''org_member'']),
      expected_result = evaluate aud vis act (aud = ''owner'') (aud = ''collaborator'')
         (aud \<in> set [''owner'', ''org_member''])\<rparr>"

text \<open>
  A framework and a store as \<open>setup_test_fixtures\<close> leaves them, with readable identifiers
  in place of the UUIDs the store draws: four users, four files owned by the owner, and
  the collaborator's edit permission on the shared and the private file.
\<close>

definition sample_framework :: framework where
  "sample_framework =
     \<lparr>users = [''owner'' \<mapsto> ''u-owner'', ''collaborator'' \<mapsto> ''u-collab'',
               ''org_member'' \<mapsto> ''u-org'', ''external'' \<mapsto> ''u-ext''],
      files = [''private'' \<mapsto> ''f-private'', ''shared'' \<mapsto> ''f-shared'',
               ''org_public'' \<mapsto> ''f-org'', ''public'' \<mapsto> ''f-public''],
      test_results = []\<rparr>"

definition sample_store :: api_state where
  "sample_store =
     \<lparr>api_users =
        [''u-owner'' \<mapsto> \<lparr>user_user_id = ''u-owner'', user_email = ''owner@acme.com'',
                          user_organization_id = ''org-acme'', user_name = ''Test Owner''\<rparr>,
         ''u-collab'' \<mapsto> \<lparr>user_user_id = ''u-collab'', user_email = ''collab@acme.com'',
                          user_organization_id = ''org-acme'', user_name = ''Test Collaborator''\<rparr>,
         ''u-org'' \<mapsto> \<lparr>user_user_id = ''u-org'', user_email = ''orgmember@acme.com'',
                          user_organization_id = ''org-acme'', user_name = ''Test OrgMember''\<rparr>,
         ''u-ext'' \<mapsto> \<lparr>user_user_id = ''u-ext'', user_email = ''external@other.com'',
                          user_organization_id = ''org-external'', user_name = ''Test External''\<rparr>],
      api_files =
        [''f-private'' \<mapsto> \<lparr>file_file_id = ''f-private'', file_owner_id = ''u-owner'',
             file_name = ''test-private.txt'', file_visibility = ''private'',
             file_content = ''Private content''\<rparr>,
         ''f-shared'' \<mapsto> \<lparr>file_file_id = ''f-shared'', file_owner_id = ''u-owner'',
             file_name = ''test-shared.txt'', file_visibility = ''shared'',
             file_content = ''Shared content''\<rparr>,
         ''f-org'' \<mapsto> \<lparr>file_file_id = ''f-org'', file_owner_id = ''u-owner'',
             file_name = ''test-org.txt'', file_visibility = ''org_public'',
             file_content = ''Org content''\<rparr>,
         ''f-public'' \<mapsto> \<lparr>file_file_id = ''f-public'', file_owner_id = ''u-owner'',
             file_name = ''test-public.txt'', file_visibility = ''public'',
             file_content = ''Public content''\<rparr>],
      permissions =
        [(''f-shared'', ''u-collab'') \<mapsto> \<lparr>perm_file_id = ''f-shared'', perm_user_id = ''u-collab'',
             perm_permission_type = ''edit''\<rparr>,
         (''f-private'', ''u-collab'') \<mapsto> \<lparr>perm_file_id = ''f-private'', perm_user_id = ''u-collab'',
             perm_permission_type = ''edit''\<rparr>],
      organizations =
        [''org-acme'' \<mapsto> [''u-owner'', ''u-collab'', ''u-org''], ''org-external'' \<mapsto> [''u-ext'']]\<rparr>"

text \<open>
  Every list of results an analysis holds: the two severity buckets and the value of each
  entry of the two grouping dictionaries.
\<close>

definition report_lists :: "analysis \<Rightarrow> test_result list list" where
  "report_lists a =
     [over_permissive a, over_restrictive a] @ map snd (failures_by_audience a)
       @ map snd (failures_by_action a)"

text \<open>
  Two failed results of the external user's edit scenarios: one whose observed decision
  is ERROR, and one over-permissive one (the subject allowed an edit the policy denies).
\<close>

definition error_result :: test_result where
  "error_result =
     \<lparr>result_scenario_id = 50, result_scenario = scenario_of 50 ''external'' ''private'' ''edit'',
      expected = ''DENY'', actual = ''ERROR'', passed = False\<rparr>"

definition permissive_result :: test_result where
  "permissive_result =
     \<lparr>result_scenario_id = 62, result_scenario = scenario_of 62 ''external'' ''public'' ''edit'',
      expected = ''DENY'', actual = ''ALLOW'', passed = False\<rparr>"

section \<open>The policy evaluator\<close>

lemma evaluate_range:
  "evaluate aud vis act io hc so = ''ALLOW'' \<or> evaluate aud vis act io hc so = ''DENY''"
  by (simp add: evaluate_def)

text \<open>
  Claim C1, as amended. For every audience, every combination of the three booleans and
  every resource class and action (declared or not), \<open>evaluate\<close> is the five-rule
  first-match chain of the specification in its order, with the first rule matching on
  \<open>is_owner\<close> or on the audience string being \<open>owner\<close>: rules 5 and 6 of the source add
  nothing to the chain's default.
\<close>

theorem evaluate_is_priority_chain:
  "evaluate aud vis act io hc so = priority_chain (io \<or> aud = ''owner'') hc so vis act"
  by (simp add: evaluate_def priority_chain_def)

text \<open>
  Claim C1 as stated fails: with \<open>is_owner\<close> false the chain of the specification denies
  an edit of a public resource, but \<open>evaluate\<close> allows it when the audience is \<open>owner\<close>.
\<close>

theorem evaluate_chain_counterexample:
  "evaluate ''owner'' ''public'' ''edit'' False False False = ''ALLOW'' \<and>
   priority_chain False False False ''public'' ''edit'' = ''DENY''"
  by (simp add: evaluate_def priority_chain_def)

text \<open>
  Claim C7, as amended. Collaborator ceiling: when the first rule does not apply
  (\<open>is_owner\<close> is false and the audience is not \<open>owner\<close>), \<open>evaluate\<close> with
  \<open>has_collaboration_permission\<close> true returns DENY for the action delete and for the
  action share, for every resource class and every value of \<open>same_org\<close>.
\<close>

theorem collaborator_ceiling:
  assumes "\<not> io" and "aud \<noteq> ''owner''" and "act = ''delete'' \<or> act = ''share''"
  shows "evaluate aud vis act io True so = ''DENY''"
  using assms by (auto simp add: evaluate_def)

text \<open>Claim C7, witness: a collaborator deleting a shared file.\<close>

theorem collaborator_ceiling_witness:
  "\<not> False \<and> ''collaborator'' \<noteq> ''owner'' \<and> (''delete'' = ''delete'' \<or> ''delete'' = ''share'') \<and>
   evaluate ''collaborator'' ''shared'' ''delete'' False True False = ''DENY''"
  using collaborator_ceiling [of False "''collaborator''" "''delete''" "''shared''" False]
  by simp

text \<open>
  Claim C7 as stated fails: it quantifies over every value of the other inputs, and with
  \<open>is_owner\<close> true the first rule allows a delete although the collaboration flag is set.
\<close>

theorem collaborator_ceiling_counterexample:
  "evaluate ''collaborator'' ''shared'' ''delete'' True True False = ''ALLOW''"
  by (simp add: evaluate_def)

text \<open>
  Claim C9. \<open>evaluate\<close> returns ALLOW whenever the audience argument is \<open>owner\<close>, for every
  visibility, every action and every value of the three flags, \<open>is_owner\<close> false included.
\<close>

theorem owner_audience_allows:
  "evaluate ''owner'' vis act io hc so = ''ALLOW''"
  by (simp add: evaluate_def)

text \<open>
  Claim C10. \<open>evaluate\<close> is a total function of its six arguments with no raising branch:
  for every audience, visibility and action string, inside or outside the declared
  enumerations, the result is ALLOW or DENY, and an input matched by none of the first
  four rules yields DENY.
\<close>

theorem evaluate_total_default_deny:
  "(evaluate aud vis act io hc so = ''ALLOW'' \<or> evaluate aud vis act io hc so = ''DENY'') \<and>
   (\<not> (io \<or> aud = ''owner'') \<and> vis \<noteq> ''public'' \<and> vis \<noteq> ''org_public'' \<and> \<not> hc
      \<longrightarrow> evaluate aud vis act io hc so = ''DENY'')"
  by (simp add: evaluate_def)

text \<open>Claim C10, witness: values outside all three enumerations fall through to DENY.\<close>

theorem evaluate_total_default_deny_witness:
  "\<not> (False \<or> ''guest'' = ''owner'') \<and> ''archived'' \<noteq> ''public'' \<and> ''archived'' \<noteq> ''org_public''
   \<and> \<not> False \<and> evaluate ''guest'' ''archived'' ''purge'' False False True = ''DENY''"
  using evaluate_total_default_deny [of "''guest''" "''archived''" "''purge''" False False True]
  by simp

section \<open>The scenario generator\<close>

subsection \<open>The triples, in order\<close>

lemma for_action_triples:
  "map triple (fst (for_action aud vis acts (scs, sid))) =
     map triple scs @ map (\<lambda>act. (aud, vis, act)) acts"
  by (induction acts arbitrary: scs sid) (simp_all add: triple_def Let_def)

lemma for_visibility_triples:
  "map triple (fst (for_visibility aud viss st)) =
     map triple (fst st) @ map (Pair aud) (List.product viss actions)"
proof (induction viss arbitrary: st)
  case Nil
  then show ?case by simp
next
  case (Cons vis viss)
  obtain scs sid where st: "st = (scs, sid)" by (cases st)
  show ?case
    by (simp add: Cons.IH st for_action_triples)
qed

lemma for_audience_triples:
  "map triple (fst (for_audience auds st)) =
     map triple (fst st) @ List.product auds (List.product visibilities actions)"
  by (induction auds arbitrary: st) (simp_all add: for_visibility_triples)

lemma generate_triples:
  "map triple (generate_all_scenarios p) = List.product audiences (List.product visibilities actions)"
  by (simp add: generate_all_scenarios_def for_audience_triples)

subsection \<open>Derived flags and expected decisions\<close>

lemma emitted_consistent:
  "consistent \<lparr>scenario_id = sid, audience = aud, visibility = vis, action = act,
      is_owner = (aud = ''owner''), has_collaboration = (aud = ''collaborator''),
      same_org = (aud \<in> set [''owner'', ''org_member'']),
      expected_result = evaluate aud vis act (aud = ''owner'') (aud = ''collaborator'')
         (aud \<in> set [''owner'', ''org_member''])\<rparr>"
  by (simp add: consistent_def)

lemma for_action_consistent:
  "list_all consistent scs \<Longrightarrow> list_all consistent (fst (for_action aud vis acts (scs, sid)))"
proof (induction acts arbitrary: scs sid)
  case Nil
  then show ?case by simp
next
  case (Cons act acts)
  show ?case
    unfolding for_action.simps Let_def
    by (rule Cons.IH) (simp add: Cons.prems emitted_consistent del: set_simps)
qed

lemma for_visibility_consistent:
  "list_all consistent (fst st) \<Longrightarrow> list_all consistent (fst (for_visibility aud viss st))"
proof (induction viss arbitrary: st)
  case Nil
  then show ?case by simp
next
  case (Cons vis viss)
  obtain scs sid where st: "st = (scs, sid)" by (cases st)
  have "list_all consistent (fst (for_action aud vis actions st))"
    using Cons.prems unfolding st by (simp add: for_action_consistent)
  then show ?case by (simp add: Cons.IH)
qed

lemma for_audience_consistent:
  "list_all consistent (fst st) \<Longrightarrow> list_all consistent (fst (for_audience auds st))"
proof (induction auds arbitrary: st)
  case Nil
  then show ?case by simp
next
  case (Cons aud auds)
  then show ?case by (simp add: for_visibility_consistent)
qed

lemma generate_consistent: "list_all consistent (generate_all_scenarios p)"
  unfolding generate_all_scenarios_def by (rule for_audience_consistent) simp

subsection \<open>Scenario identifiers\<close>

lemma for_action_snd: "snd (for_action aud vis acts (scs, sid)) = sid + int (length acts)"
  by (induction acts arbitrary: scs sid) (simp_all add: Let_def)

lemma for_action_ids:
  "map scenario_id (fst (for_action aud vis acts (scs, sid))) =
     map scenario_id scs @ map (\<lambda>i. sid + int i) [0..<length acts]"
proof (induction acts arbitrary: scs sid)
  case Nil
  then show ?case by simp
next
  case (Cons act acts)
  have "map (\<lambda>i. sid + int i) [0..<Suc (length acts)] =
          sid # map (\<lambda>i. sid + 1 + int i) [0..<length acts]"
    by (simp add: map_upt_Suc del: upt_Suc)
  then show ?case by (simp add: Let_def Cons.IH del: upt_Suc)
qed

lemma upto_as_map: "map (\<lambda>i. k + int i) [0..<n] = [k..k + int n - 1]"
proof (induction n)
  case 0
  then show ?case by simp
next
  case (Suc n)
  have "[k..k + int (Suc n) - 1] = [k..k + int n - 1] @ [k + int n]"
    using upto_rec2[of k "k + int (Suc n) - 1"] by simp
  then show ?case using Suc by simp
qed

lemma for_action_upto:
  "map scenario_id scs = [1..sid - 1] \<Longrightarrow> 1 \<le> sid \<Longrightarrow>
   map scenario_id (fst (for_action aud vis acts (scs, sid))) =
     [1..snd (for_action aud vis acts (scs, sid)) - 1]"
proof -
  assume a: "map scenario_id scs = [1..sid - 1]" and b: "1 \<le> sid"
  have "[1..sid + int (length acts) - 1] = [1..sid - 1] @ [sid..sid + int (length acts) - 1]"
  proof (cases "sid = 1")
    case True
    then show ?thesis by simp
  next
    case False
    with b have "1 \<le> sid - 1" by simp
    then show ?thesis
      using upto_split2[of 1 "sid - 1" "sid + int (length acts) - 1"] by simp
  qed
  then show ?thesis by (simp add: for_action_ids for_action_snd a upto_as_map)
qed

lemma for_visibility_upto:
  "map scenario_id (fst st) = [1..snd st - 1] \<Longrightarrow> 1 \<le> snd st \<Longrightarrow>
   map scenario_id (fst (for_visibility aud viss st)) = [1..snd (for_visibility aud viss st) - 1]
   \<and> 1 \<le> snd (for_visibility aud viss st)"
proof (induction viss arbitrary: st)
  case Nil
  then show ?case by simp
next
  case (Cons vis viss)
  obtain scs sid where st: "st = (scs, sid)" by (cases st)
  have 1: "map scenario_id (fst (for_action aud vis actions st)) =
          [1..snd (for_action aud vis actions st) - 1]"
    using Cons.prems unfolding st by (simp add: for_action_upto)
  have 2: "1 \<le> snd (for_action aud vis actions st)"
    using Cons.prems unfolding st by (simp add: for_action_snd)
  show ?case using Cons.IH[OF 1 2] by simp
qed

lemma for_audience_upto:
  "map scenario_id (fst st) = [1..snd st - 1] \<Longrightarrow> 1 \<le> snd st \<Longrightarrow>
   map scenario_id (fst (for_audience auds st)) = [1..snd (for_audience auds st) - 1]"
proof (induction auds arbitrary: st)
  case Nil
  then show ?case by simp
next
  case (Cons aud auds)
  have "map scenario_id (fst (for_visibility aud visibilities st)) =
          [1..snd (for_visibility aud visibilities st) - 1]
        \<and> 1 \<le> snd (for_visibility aud visibilities st)"
    using Cons.prems by (rule for_visibility_upto)
  then show ?case using Cons.IH by simp
qed

lemma generate_length: "length (generate_all_scenarios p) = 64"
proof -
  have "length (map triple (generate_all_scenarios p)) = 64"
    unfolding generate_triples by (simp add: audiences_def visibilities_def actions_def)
  then show ?thesis by simp
qed

lemma generate_ids: "map scenario_id (generate_all_scenarios p) = [1..64]"
proof -
  have eq: "map scenario_id (generate_all_scenarios p) = [1..snd (for_audience audiences ([], 1)) - 1]"
    unfolding generate_all_scenarios_def by (rule for_audience_upto) simp_all
  have "length (map scenario_id (generate_all_scenarios p)) = 64"
    by (simp add: generate_length)
  then have "nat (snd (for_audience audiences ([], 1)) - 1) = 64"
    unfolding eq by simp
  then have "snd (for_audience audiences ([], 1)) - 1 = 64" by linarith
  then show ?thesis using eq by simp
qed

lemma generate_distinct: "distinct (map triple (generate_all_scenarios p))"
  unfolding generate_triples
  by (intro distinct_product) (simp_all add: audiences_def visibilities_def actions_def)

lemma generate_set: "set (map triple (generate_all_scenarios p)) = set audiences \<times> set visibilities \<times> set actions"
  unfolding generate_triples by simp

subsection \<open>The whole list in closed form\<close>

lemma consistent_scenario_of:
  "consistent s \<Longrightarrow> s = scenario_of (scenario_id s) (audience s) (visibility s) (action s)"
  by (cases s) (simp add: consistent_def scenario_of_def)

lemma map_zip_fields:
  "map (\<lambda>s. F (f s) (h s)) xs = map (\<lambda>(i, t). F i t) (zip (map f xs) (map h xs))"
  by (induction xs) simp_all

lemma generate_closed_form:
  "generate_all_scenarios p =
     map (\<lambda>(i, a, v, c). scenario_of i a v c)
       (zip [1..64] (List.product audiences (List.product visibilities actions)))"
proof -
  let ?g = "generate_all_scenarios p"
  have "\<forall>s\<in>set ?g. scenario_of (scenario_id s) (audience s) (visibility s) (action s) = s"
    using generate_consistent[of p] consistent_scenario_of by (auto simp: list_all_iff)
  then have "map (\<lambda>s. scenario_of (scenario_id s) (audience s) (visibility s) (action s)) ?g = ?g"
    by (simp add: map_idI)
  moreover have "map (\<lambda>s. scenario_of (scenario_id s) (audience s) (visibility s) (action s)) ?g =
      map (\<lambda>(i, a, v, c). scenario_of i a v c) (zip (map scenario_id ?g) (map triple ?g))"
    using map_zip_fields[of "\<lambda>i (a, v, c). scenario_of i a v c" scenario_id triple ?g]
    by (simp add: triple_def)
  ultimately show ?thesis by (simp add: generate_ids generate_triples)
qed

lemma generated_expected:
  assumes "sc \<in> set (generate_all_scenarios pol)"
  shows "expected_result sc = ''ALLOW'' \<or> expected_result sc = ''DENY''"
proof -
  have "consistent sc"
    using generate_consistent[of pol] assms by (simp add: list_all_iff)
  then have "expected_result sc =
      evaluate (audience sc) (visibility sc) (action sc) (is_owner sc) (has_collaboration sc) (same_org sc)"
    by (simp add: consistent_def)
  then show ?thesis using evaluate_range by simp
qed

subsection \<open>The claims about generation\<close>

text \<open>
  Claim C2. \<open>generate_all_scenarios\<close> returns exactly 64 scenarios; their (role,
  resourceClass, action) triples are the 4x4x4 cross-product, each triple exactly once
  (the list of triples is the product list, it has no duplicates, and its set is the full
  product); and every scenario carries the booleans derived from its role (\<open>is_owner\<close> iff
  the role is owner, \<open>has_collaboration\<close> iff it is collaborator, \<open>same_org\<close> iff it is owner
  or org\_member) and an expected decision equal to \<open>evaluate\<close> on its own inputs.
\<close>

theorem generate_all_scenarios_complete:
  "length (generate_all_scenarios p) = 64 \<and>
   map triple (generate_all_scenarios p) = List.product audiences (List.product visibilities actions) \<and>
   distinct (map triple (generate_all_scenarios p)) \<and>
   set (map triple (generate_all_scenarios p)) = set audiences \<times> set visibilities \<times> set actions \<and>
   (\<forall>s\<in>set (generate_all_scenarios p). consistent s)"
proof -
  have "\<forall>s\<in>set (generate_all_scenarios p). consistent s"
    using generate_consistent[of p] by (simp add: list_all_iff)
  with generate_length[of p] generate_triples[of p] generate_distinct[of p] generate_set[of p]
  show ?thesis by blast
qed

text \<open>
  Claim C2, witness: the first scenario (owner, private, read) is in the list the
  generator returns for the policy object the constructor builds, and it is consistent.
\<close>

theorem generate_all_scenarios_complete_witness:
  "scenario_of 1 ''owner'' ''private'' ''read'' \<in> set (generate_all_scenarios init_policy) \<and>
   length (generate_all_scenarios init_policy) = 64 \<and>
   consistent (scenario_of 1 ''owner'' ''private'' ''read'')"
proof -
  have m: "scenario_of 1 ''owner'' ''private'' ''read'' \<in> set (generate_all_scenarios init_policy)"
    by code_simp
  from generate_all_scenarios_complete[of init_policy] m show ?thesis by blast
qed

text \<open>
  Claim C5. Scenario generation is deterministic: the method reads and writes nothing of
  the policy object, so calls on any two policy objects (in particular two calls on the
  same one) return the same list, and that list is fixed: the scenarios of the product
  list of triples in loop order, numbered 1 to 64, each with the flags and the expected
  decision computed from its triple.
\<close>

theorem generate_all_scenarios_deterministic:
  "generate_all_scenarios p = generate_all_scenarios q \<and>
   generate_all_scenarios p =
     map (\<lambda>(i, a, v, c). scenario_of i a v c)
       (zip [1..64] (List.product audiences (List.product visibilities actions)))"
  using generate_closed_form[of p] generate_closed_form[of q] by simp

section \<open>The oracle\<close>

subsection \<open>The session's retries\<close>

lemma session_send_not_retried:
  "\<not> method_retried req \<Longrightarrow> session_send n api req st = api req st"
  by (cases n; cases "api req st") (auto split: sum.splits)

lemma session_send_final:
  assumes "api req st = (Inr r, st')" and "status r \<notin> set status_forcelist"
  shows "session_send n api req st = (Inr r, st')"
  using assms by (cases n) simp_all

lemma session_send_raised:
  assumes "api req st = (Inl e, st')"
  shows "session_send n api req st = (Inl e, st')"
  using assms by (cases n) simp_all

text \<open>
  An edit answered with status 500 every time is sent four times and then raises: the
  oracle records no decision for it.
\<close>

lemma retried_edit_raises:
  "execute_api_action sample_framework (recording (constant_subject internal_error))
      ''f-private'' ''u-ext'' ''edit'' ((), []) =
     (Inl RetryError, ((), replicate 4 (UpdateFile ''f-private'' ''u-ext'' ''Updated content'')))"
  by (simp add: execute_api_action_def ApiClient_update_file_def send_wrapped_def decide_def
        recording_def constant_subject_def internal_error_def status_forcelist_def
        numeral_3_eq_3 numeral_eq_Suc)

subsection \<open>What a scenario's result records\<close>

lemma test_scenario_fields:
  assumes "test_scenario self api sc st = (Inr r, st')"
  shows "result_scenario r = sc \<and> expected r = expected_result sc \<and>
         passed r = (expected_result sc = actual r)"
  using assms
  by (auto simp: test_scenario_def split: option.splits prod.splits sum.splits)

subsection \<open>The delete action\<close>

lemma authorize_check_pure: "snd (authorize_check file_id user_id act api) = api"
  by (simp add: authorize_check_def split: sum.splits)

lemma server_authorize: "snd (server (Authorize file_id user_id act) api) = api"
  using authorize_check_pure[of file_id user_id act api]
  by (cases "authorize_check file_id user_id act api") (simp add: server_def)

lemma delete_only_authorizes:
  "snd (execute_api_action self (recording api) file_id user_id ''delete'' (st, sent)) =
     (snd (api (Authorize file_id user_id ''delete'') st), sent @ [Authorize file_id user_id ''delete''])"
  by (simp add: execute_api_action_def ApiClient_check_authorization_def recording_def
           session_send_not_retried split: prod.splits sum.splits)

text \<open>
  Claim C8. For every scenario whose action is delete, run against the repository's own
  server with the fixture bindings in place, the only request the oracle sends is the
  authorization query for (file, user, delete), never the delete operation, and the
  store (users, files with their contents, permissions, organizations) is the same after
  the scenario as before.
\<close>

theorem delete_is_nondestructive:
  assumes "action sc = ''delete''"
    and "users self (audience sc) = Some uid"
    and "files self (visibility sc) = Some fid"
  shows "snd (test_scenario self (recording server) sc (st, sent)) =
           (st, sent @ [Authorize fid uid ''delete''])"
proof -
  have "snd (test_scenario self (recording server) sc (st, sent)) =
          snd (execute_api_action self (recording server) fid uid ''delete'' (st, sent))"
    using assms by (simp add: test_scenario_def split: prod.splits sum.splits)
  then show ?thesis by (simp add: delete_only_authorizes server_authorize)
qed

text \<open>
  Claim C8, witness: the external user's delete of the private file, on the sample store.
\<close>

theorem delete_is_nondestructive_witness:
  "action (scenario_of 51 ''external'' ''private'' ''delete'') = ''delete'' \<and>
   users sample_framework (audience (scenario_of 51 ''external'' ''private'' ''delete'')) = Some ''u-ext'' \<and>
   files sample_framework (visibility (scenario_of 51 ''external'' ''private'' ''delete'')) = Some ''f-private'' \<and>
   snd (test_scenario sample_framework (recording server)
          (scenario_of 51 ''external'' ''private'' ''delete'') (sample_store, [])) =
     (sample_store, [Authorize ''f-private'' ''u-ext'' ''delete''])"
  using delete_is_nondestructive [of "scenario_of 51 ''external'' ''private'' ''delete''"
      sample_framework "''u-ext''" "''f-private''" sample_store "[]"]
  by (simp add: scenario_of_def sample_framework_def)

subsection \<open>Faults of the subject\<close>

text \<open>
  Claim C3 does not hold of the code on the delete path. The subject answers the
  authorization query with status 404 and a page that is not JSON (it is broken, or has no such
  endpoint). \<open>check_authorization\<close> turns the unparsable body into False, the oracle
  reports DENY, and since the policy expects DENY for the external user's delete of the
  private file the scenario passes. The same reply to the read of that file is reported
  as ERROR and fails, as the claim says it should; and when the exchange itself raises,
  the exception leaves \<open>test_scenario\<close> and no decision is recorded at all.
\<close>

theorem delete_fault_reported_as_deny:
  "test_scenario sample_framework (constant_subject not_found_page)
      (scenario_of 51 ''external'' ''private'' ''delete'') () =
     (Inr \<lparr>result_scenario_id = 51,
           result_scenario = scenario_of 51 ''external'' ''private'' ''delete'',
           expected = ''DENY'', actual = ''DENY'', passed = True\<rparr>, ()) \<and>
   test_scenario sample_framework (constant_subject not_found_page)
      (scenario_of 49 ''external'' ''private'' ''read'') () =
     (Inr \<lparr>result_scenario_id = 49,
           result_scenario = scenario_of 49 ''external'' ''private'' ''read'',
           expected = ''DENY'', actual = ''ERROR'', passed = False\<rparr>, ()) \<and>
   test_scenario sample_framework unreachable_subject
      (scenario_of 49 ''external'' ''private'' ''read'') () = (Inl RequestException, ())"
proof -
  have a: "test_scenario sample_framework (constant_subject not_found_page)
      (scenario_of 51 ''external'' ''private'' ''delete'') () =
     (Inr \<lparr>result_scenario_id = 51,
           result_scenario = scenario_of 51 ''external'' ''private'' ''delete'',
           expected = ''DENY'', actual = ''DENY'', passed = True\<rparr>, ())"
    by (simp add: test_scenario_def execute_api_action_def ApiClient_check_authorization_def
        session_send_not_retried
        constant_subject_def not_found_page_def scenario_of_def sample_framework_def evaluate_def)
  have b: "test_scenario sample_framework (constant_subject not_found_page)
      (scenario_of 49 ''external'' ''private'' ''read'') () =
     (Inr \<lparr>result_scenario_id = 49,
           result_scenario = scenario_of 49 ''external'' ''private'' ''read'',
           expected = ''DENY'', actual = ''ERROR'', passed = False\<rparr>, ())"
    by (simp add: test_scenario_def execute_api_action_def ApiClient_get_file_def send_wrapped_def
        wrap_response_def decide_def dict_get_def status_forcelist_def numeral_3_eq_3
        constant_subject_def not_found_page_def scenario_of_def sample_framework_def evaluate_def)
  have c: "test_scenario sample_framework unreachable_subject
      (scenario_of 49 ''external'' ''private'' ''read'') () = (Inl RequestException, ())"
    by (simp add: test_scenario_def execute_api_action_def ApiClient_get_file_def send_wrapped_def
        decide_def unreachable_subject_def scenario_of_def sample_framework_def numeral_3_eq_3)
  from a b c show ?thesis by blast
qed

subsection \<open>The share action\<close>

lemma share_request:
  assumes "users self ''external'' = Some tid"
  shows "snd (snd (execute_api_action self (recording api) file_id user_id ''share'' (st, sent))) =
     sent @ [ShareFile file_id user_id tid ''read'']"
  using assms
  by (simp add: execute_api_action_def ApiClient_share_file_def send_wrapped_def decide_def
        recording_def session_send_not_retried split: prod.splits sum.splits)

lemma sample_users_distinct: "inj_on (users sample_framework) (set audiences)"
  by (simp add: sample_framework_def audiences_def)

text \<open>
  Claim C6, as amended. For every scenario whose action is share, with the scenario's
  role and resource class and the external role bound by the fixture, the one request
  the oracle sends is the subject's share operation on the scenario's file, by the
  scenario's acting principal, granting read permission to the principal bound to the
  external role. In the scenarios whose role is external that target is the acting
  principal itself; when the fixture binds the four roles to pairwise distinct
  principals, the target differs from the acting principal in the scenarios of the other
  three roles, and in those only.
\<close>

theorem share_targets_external_principal:
  assumes "action sc = ''share''"
    and "users self (audience sc) = Some uid"
    and "files self (visibility sc) = Some fid"
    and "users self ''external'' = Some tid"
  shows "snd (snd (test_scenario self (recording api) sc (st, sent))) =
           sent @ [ShareFile fid uid tid ''read''] \<and>
         (audience sc = ''external'' \<longrightarrow> tid = uid) \<and>
         (inj_on (users self) (set audiences) \<and> audience sc \<in> set audiences \<longrightarrow>
            (tid = uid) = (audience sc = ''external''))"
proof -
  have "snd (snd (test_scenario self (recording api) sc (st, sent))) =
          snd (snd (execute_api_action self (recording api) fid uid ''share'' (st, sent)))"
    using assms(1-3) by (simp add: test_scenario_def split: prod.splits sum.splits)
  then have 1: "snd (snd (test_scenario self (recording api) sc (st, sent))) =
      sent @ [ShareFile fid uid tid ''read'']"
    by (simp add: share_request[OF assms(4)])
  have 2: "audience sc = ''external'' \<longrightarrow> tid = uid"
    using assms(2,4) by auto
  have ext: "''external'' \<in> set audiences" by (simp add: audiences_def)
  have 3: "inj_on (users self) (set audiences) \<and> audience sc \<in> set audiences \<longrightarrow>
            (tid = uid) = (audience sc = ''external'')"
  proof (intro impI, elim conjE)
    assume inj: "inj_on (users self) (set audiences)" and mem: "audience sc \<in> set audiences"
    show "(tid = uid) = (audience sc = ''external'')"
    proof
      assume "tid = uid"
      then have "users self (audience sc) = users self ''external''"
        using assms(2,4) by simp
      then show "audience sc = ''external''"
        using inj mem ext by (auto dest: inj_onD)
    next
      assume "audience sc = ''external''"
      then show "tid = uid" using 2 by simp
    qed
  qed
  from 1 2 3 show ?thesis by blast
qed

text \<open>
  Claim C6, witness, at two scenarios on the sample fixture, whose four roles are bound to
  distinct principals: the collaborator's share of the shared file, whose target is the
  external user and not the collaborator, and the external user's share of the private
  file, whose target is the external user, the acting principal.
\<close>

theorem share_targets_external_principal_witness:
  "action (scenario_of 24 ''collaborator'' ''shared'' ''share'') = ''share'' \<and>
   users sample_framework ''collaborator'' = Some ''u-collab'' \<and>
   files sample_framework ''shared'' = Some ''f-shared'' \<and>
   users sample_framework ''external'' = Some ''u-ext'' \<and>
   inj_on (users sample_framework) (set audiences) \<and>
   ''collaborator'' \<in> set audiences \<and>
   snd (snd (test_scenario sample_framework (recording server)
          (scenario_of 24 ''collaborator'' ''shared'' ''share'') (sample_store, []))) =
     [ShareFile ''f-shared'' ''u-collab'' ''u-ext'' ''read''] \<and>
   ''u-ext'' \<noteq> ''u-collab'' \<and>
   action (scenario_of 52 ''external'' ''private'' ''share'') = ''share'' \<and>
   files sample_framework ''private'' = Some ''f-private'' \<and>
   audience (scenario_of 52 ''external'' ''private'' ''share'') = ''external'' \<and>
   snd (snd (test_scenario sample_framework (recording server)
          (scenario_of 52 ''external'' ''private'' ''share'') (sample_store, []))) =
     [ShareFile ''f-private'' ''u-ext'' ''u-ext'' ''read'']"
  using share_targets_external_principal [of "scenario_of 24 ''collaborator'' ''shared'' ''share''"
      sample_framework "''u-collab''" "''f-shared''" "''u-ext''" server sample_store "[]"]
    share_targets_external_principal [of "scenario_of 52 ''external'' ''private'' ''share''"
      sample_framework "''u-ext''" "''f-private''" "''u-ext''" server sample_store "[]"]
    sample_users_distinct
  by (simp add: scenario_of_def sample_framework_def audiences_def)

text \<open>
  Claim C6 as stated fails: in a share scenario of the external role the target of the
  grant is the acting principal itself. Here the external user shares the private file
  with the external user.
\<close>

theorem share_target_is_actor_counterexample:
  "action (scenario_of 52 ''external'' ''private'' ''share'') = ''share'' \<and>
   users sample_framework (audience (scenario_of 52 ''external'' ''private'' ''share'')) = Some ''u-ext'' \<and>
   snd (snd (test_scenario sample_framework (recording server)
          (scenario_of 52 ''external'' ''private'' ''share'') (sample_store, []))) =
     [ShareFile ''f-private'' ''u-ext'' ''u-ext'' ''read'']"
  by (simp add: test_scenario_def execute_api_action_def ApiClient_share_file_def send_wrapped_def
        decide_def recording_def scenario_of_def sample_framework_def session_send_not_retried
        split: prod.splits sum.splits)

section \<open>The result aggregator\<close>

lemma categorize_fst:
  "r \<in> set (fst (categorize rs (p, q))) \<Longrightarrow> r \<in> set p \<or> actual r = ''ALLOW''"
proof (induction rs arbitrary: p q)
  case Nil
  then show ?case by simp
next
  case (Cons a rs)
  then show ?case
    using Cons.IH[of "p @ [a]" q] Cons.IH[of p "q @ [a]"] Cons.IH[of p q]
    by (auto split: if_splits)
qed

lemma categorize_snd:
  "r \<in> set (snd (categorize rs (p, q))) \<Longrightarrow> r \<in> set q \<or> actual r = ''DENY''"
proof (induction rs arbitrary: p q)
  case Nil
  then show ?case by simp
next
  case (Cons a rs)
  then show ?case
    using Cons.IH[of "p @ [a]" q] Cons.IH[of p "q @ [a]"] Cons.IH[of p q]
    by (auto split: if_splits)
qed

lemma group_add_has: "\<exists>rs. (k, rs) \<in> set (group_add k r g) \<and> r \<in> set rs"
proof (cases "map_of g k")
  case None
  then have "(k, [r]) \<in> set (group_add k r g)"
    by (simp add: group_add_def)
  then show ?thesis by fastforce
next
  case (Some v)
  then have "(k, v) \<in> set g" by (rule map_of_SomeD)
  then have "(k, v @ [r]) \<in> set (group_add k r g)"
    using Some by (force simp: group_add_def)
  then show ?thesis by fastforce
qed

lemma group_add_keeps:
  assumes "(k', rs) \<in> set g" and "r' \<in> set rs"
  shows "\<exists>rs'. (k', rs') \<in> set (group_add k r g) \<and> r' \<in> set rs'"
proof -
  have "(k', if k' = k then rs @ [r] else rs) \<in> set (group_add k r g)"
    using assms(1) by (force simp: group_add_def Let_def)
  then show ?thesis using assms(2) by (cases "k' = k") fastforce+
qed

lemma group_failures_keeps:
  "(k', rs0) \<in> set g \<Longrightarrow> r' \<in> set rs0 \<Longrightarrow>
   \<exists>rs'. (k', rs') \<in> set (group_failures key rs g) \<and> r' \<in> set rs'"
proof (induction rs arbitrary: g rs0)
  case Nil
  then show ?case by auto
next
  case (Cons r rs)
  show ?case
  proof (cases "passed r")
    case True
    then show ?thesis using Cons by simp
  next
    case False
    obtain rs1 where "(k', rs1) \<in> set (group_add (key (result_scenario r)) r g)" "r' \<in> set rs1"
      using group_add_keeps[OF Cons.prems] by blast
    then show ?thesis using Cons.IH False by simp
  qed
qed

lemma group_failures_has:
  "r \<in> set rs \<Longrightarrow> \<not> passed r \<Longrightarrow>
   \<exists>rs'. (key (result_scenario r), rs') \<in> set (group_failures key rs g) \<and> r \<in> set rs'"
proof (induction rs arbitrary: g)
  case Nil
  then show ?case by simp
next
  case (Cons x rs)
  show ?case
  proof (cases "r = x")
    case True
    obtain rs1 where "(key (result_scenario r), rs1) \<in> set (group_add (key (result_scenario r)) r g)"
        "r \<in> set rs1"
      using group_add_has by blast
    then have "\<exists>rs'. (key (result_scenario r), rs') \<in>
           set (group_failures key rs (group_add (key (result_scenario r)) r g)) \<and> r \<in> set rs'"
      by (rule group_failures_keeps)
    then show ?thesis using True Cons.prems by simp
  next
    case False
    then have "r \<in> set rs" using Cons.prems by simp
    then show ?thesis using Cons.IH Cons.prems(2) by (cases "passed x") simp_all
  qed
qed

text \<open>
  Claim C4, as amended. Every result whose observed decision is ERROR is, in the
  analysis of any result list holding it, in neither the over-permissive nor the
  over-restrictive bucket. When the oracle produced it for a scenario whose expected
  decision is not ERROR, as the expected decision of every generated scenario is not, then
  \<open>passed\<close> is false and the result is reported through the failure group of its audience
  and the failure group of its action, which are the groups policy failures go to as
  well.
\<close>

theorem error_result_fails_outside_severity_buckets:
  assumes "actual r = ''ERROR''"
    and "r \<in> set (test_results fw)"
  shows "r \<notin> set (over_permissive (analyze_results fw))
     \<and> r \<notin> set (over_restrictive (analyze_results fw))
     \<and> (sc \<in> set (generate_all_scenarios pol) \<longrightarrow> expected_result sc \<noteq> ''ERROR'')
     \<and> (expected_result sc \<noteq> ''ERROR'' \<and> test_scenario self api sc st = (Inr r, st') \<longrightarrow>
          \<not> passed r
          \<and> (\<exists>rs. (audience sc, rs) \<in> set (failures_by_audience (analyze_results fw)) \<and> r \<in> set rs)
          \<and> (\<exists>rs. (action sc, rs) \<in> set (failures_by_action (analyze_results fw)) \<and> r \<in> set rs))"
proof -
  have a: "r \<notin> set (over_permissive (analyze_results fw))"
    using categorize_fst[of r "test_results fw" "[]" "[]"] assms(1)
    by (auto simp: analyze_results_def Let_def)
  have b: "r \<notin> set (over_restrictive (analyze_results fw))"
    using categorize_snd[of r "test_results fw" "[]" "[]"] assms(1)
    by (auto simp: analyze_results_def Let_def)
  have g: "sc \<in> set (generate_all_scenarios pol) \<longrightarrow> expected_result sc \<noteq> ''ERROR''"
    using generated_expected[of sc pol] by auto
  have c: "expected_result sc \<noteq> ''ERROR'' \<and> test_scenario self api sc st = (Inr r, st') \<longrightarrow>
          \<not> passed r
          \<and> (\<exists>rs. (audience sc, rs) \<in> set (failures_by_audience (analyze_results fw)) \<and> r \<in> set rs)
          \<and> (\<exists>rs. (action sc, rs) \<in> set (failures_by_action (analyze_results fw)) \<and> r \<in> set rs)"
  proof (intro impI, elim conjE)
    assume ne: "expected_result sc \<noteq> ''ERROR''"
      and run: "test_scenario self api sc st = (Inr r, st')"
    note f = test_scenario_fields[OF run]
    have np: "\<not> passed r" using f ne assms(1) by auto
    have c1: "\<exists>rs. (audience sc, rs) \<in> set (failures_by_audience (analyze_results fw)) \<and> r \<in> set rs"
      using group_failures_has[OF assms(2) np, of audience "[]"] f
      by (simp add: analyze_results_def Let_def)
    have c2: "\<exists>rs. (action sc, rs) \<in> set (failures_by_action (analyze_results fw)) \<and> r \<in> set rs"
      using group_failures_has[OF assms(2) np, of action "[]"] f
      by (simp add: analyze_results_def Let_def)
    from np c1 c2 show "\<not> passed r
          \<and> (\<exists>rs. (audience sc, rs) \<in> set (failures_by_audience (analyze_results fw)) \<and> r \<in> set rs)
          \<and> (\<exists>rs. (action sc, rs) \<in> set (failures_by_action (analyze_results fw)) \<and> r \<in> set rs)"
      by blast
  qed
  from a b g c show ?thesis by blast
qed

text \<open>
  Claim C4, witness: the subject answers the external user's edit of the private file
  with status 404, which the session does not retry; the scenario is a generated one, the
  result is \<open>error_result\<close>, and it is analysed together with an over-permissive failure.
\<close>

theorem error_result_fails_outside_severity_buckets_witness:
  "actual error_result = ''ERROR'' \<and>
   error_result \<in> set (test_results
      (sample_framework\<lparr>test_results := [error_result, permissive_result]\<rparr>)) \<and>
   scenario_of 50 ''external'' ''private'' ''edit'' \<in> set (generate_all_scenarios init_policy) \<and>
   expected_result (scenario_of 50 ''external'' ''private'' ''edit'') \<noteq> ''ERROR'' \<and>
   test_scenario sample_framework (constant_subject not_found_page)
      (scenario_of 50 ''external'' ''private'' ''edit'') () = (Inr error_result, ()) \<and>
   \<not> passed error_result \<and>
   error_result \<notin> set (over_permissive (analyze_results
      (sample_framework\<lparr>test_results := [error_result, permissive_result]\<rparr>))) \<and>
   error_result \<notin> set (over_restrictive (analyze_results
      (sample_framework\<lparr>test_results := [error_result, permissive_result]\<rparr>))) \<and>
   (\<exists>rs. (''external'', rs) \<in> set (failures_by_audience (analyze_results
      (sample_framework\<lparr>test_results := [error_result, permissive_result]\<rparr>))) \<and>
      error_result \<in> set rs)"
proof -
  let ?fw = "sample_framework\<lparr>test_results := [error_result, permissive_result]\<rparr>"
  let ?sc = "scenario_of 50 ''external'' ''private'' ''edit''"
  have m: "?sc \<in> set (generate_all_scenarios init_policy)"
    by code_simp
  have t: "test_scenario sample_framework (constant_subject not_found_page) ?sc () =
      (Inr error_result, ())"
    by (simp add: test_scenario_def execute_api_action_def ApiClient_update_file_def send_wrapped_def
        wrap_response_def decide_def dict_get_def error_result_def status_forcelist_def
        numeral_3_eq_3
        constant_subject_def not_found_page_def scenario_of_def sample_framework_def evaluate_def)
  have e: "actual error_result = ''ERROR''"
    by (simp add: error_result_def)
  have i: "error_result \<in> set (test_results ?fw)"
    by simp
  have au: "audience ?sc = ''external''"
    by (simp add: scenario_of_def)
  note th = error_result_fails_outside_severity_buckets
    [OF e i, of ?sc init_policy sample_framework "constant_subject not_found_page" "()" "()"]
  from th m have ne: "expected_result ?sc \<noteq> ''ERROR''" by blast
  from th ne t au m e i show ?thesis by auto
qed

text \<open>
  Claim C4 as stated fails twice. First, a result whose observed decision is ERROR can
  have \<open>passed\<close> true: \<open>test_scenario\<close> takes any scenario dictionary, and for one whose expected
  decision is ERROR an unexpected reply is recorded as a pass. Second, the analysis has no
  category of its own for ERROR results: analysing the ERROR result together with the
  over-permissive one, the lists the analysis holds are the over-permissive bucket with
  the policy failure, the empty over-restrictive bucket, and the groups of audience
  external and of action edit, each holding both failures side by side; none of them is
  the list of the infrastructure failures.
\<close>

theorem error_classification_counterexample:
  "test_scenario sample_framework (constant_subject not_found_page)
      ((scenario_of 50 ''external'' ''private'' ''edit'')\<lparr>expected_result := ''ERROR''\<rparr>) () =
     (Inr \<lparr>result_scenario_id = 50,
           result_scenario =
             (scenario_of 50 ''external'' ''private'' ''edit'')\<lparr>expected_result := ''ERROR''\<rparr>,
           expected = ''ERROR'', actual = ''ERROR'', passed = True\<rparr>, ()) \<and>
   actual error_result = ''ERROR'' \<and>
   report_lists (analyze_results
      (sample_framework\<lparr>test_results := [error_result, permissive_result]\<rparr>)) =
     [ [permissive_result], [], [error_result, permissive_result], [error_result, permissive_result] ] \<and>
   [error_result] \<notin> set (report_lists (analyze_results
      (sample_framework\<lparr>test_results := [error_result, permissive_result]\<rparr>)))"
proof -
  have a: "test_scenario sample_framework (constant_subject not_found_page)
      ((scenario_of 50 ''external'' ''private'' ''edit'')\<lparr>expected_result := ''ERROR''\<rparr>) () =
     (Inr \<lparr>result_scenario_id = 50,
           result_scenario =
             (scenario_of 50 ''external'' ''private'' ''edit'')\<lparr>expected_result := ''ERROR''\<rparr>,
           expected = ''ERROR'', actual = ''ERROR'', passed = True\<rparr>, ())"
    by (simp add: test_scenario_def execute_api_action_def ApiClient_update_file_def send_wrapped_def
        wrap_response_def decide_def dict_get_def status_forcelist_def numeral_3_eq_3
        constant_subject_def not_found_page_def scenario_of_def sample_framework_def)
  have b: "actual error_result = ''ERROR'' \<and>
   report_lists (analyze_results
      (sample_framework\<lparr>test_results := [error_result, permissive_result]\<rparr>)) =
     [ [permissive_result], [], [error_result, permissive_result], [error_result, permissive_result] ] \<and>
   [error_result] \<notin> set (report_lists (analyze_results
      (sample_framework\<lparr>test_results := [error_result, permissive_result]\<rparr>)))"
    by (simp add: report_lists_def analyze_results_def group_add_def error_result_def
        permissive_result_def scenario_of_def sample_framework_def)
  from a b show ?thesis by blast
qed

end
